theory Spec2Isabelle
  imports Main
begin

section \<open>The Result container of result4js (src/index.ts)\<close>

text \<open>
  TypeScript's type parameters \<open>S\<close> and \<open>E\<close> are erased when the program runs, so an
  instance holds a run-time value of one universe \<open>'v\<close>. The union
  \<^verbatim>\<open>type Result<S, E> = Success<S, E> | Failure<S, E>\<close> of the two classes is a datatype
  with one constructor per class; both classes declare the constructor parameter
  property \<^verbatim>\<open>public data\<close>, which is the shared selector \<open>data\<close>.
\<close>

datatype 'v Result = Success (data: 'v) | Failure (data: 'v)

text \<open>
  The field \<^verbatim>\<open>private readonly _tag = "Success"\<close> (respectively \<^verbatim>\<open>"Failure"\<close>) is
  initialised to a constant of the class and is never assigned again.
\<close>

fun tag :: "'v Result \<Rightarrow> string" where
  "tag (Success d) = ''Success''"
| "tag (Failure d) = ''Failure''"

text \<open>
  How the evaluation of a call ends: \<^verbatim>\<open>return v\<close> is \<open>Returns v\<close>, \<^verbatim>\<open>throw x\<close> is
  \<open>Throws x\<close>. The thrown value is carried as it is.
\<close>

datatype ('x, 'a) completion = Returns 'a | Throws 'x

fun raises :: "('x, 'a) completion \<Rightarrow> bool" where
  "raises (Returns v) = False"
| "raises (Throws x) = True"

subsection \<open>The factory functions\<close>

text \<open>\<^verbatim>\<open>function Ok(data) { return new Success(data); }\<close>\<close>

definition Ok :: "'v \<Rightarrow> 'v Result" where
  "Ok d = Success d"

text \<open>\<^verbatim>\<open>function Err(error) { return new Failure(error); }\<close>\<close>

definition Err :: "'v \<Rightarrow> 'v Result" where
  "Err error = Failure error"

subsection \<open>The methods without a mapper\<close>

text \<open>
  \<^verbatim>\<open>Success.throw() { return this.data; }\<close> and
  \<^verbatim>\<open>Failure.throw() { throw this.data; }\<close>
\<close>

fun "throw" :: "'v Result \<Rightarrow> ('v, 'v) completion" where
  "throw (Success d) = Returns d"
| "throw (Failure d) = Throws d"

text \<open>
  \<^verbatim>\<open>Success.or(defaultValue) { return this.data; }\<close> and
  \<^verbatim>\<open>Failure.or(defaultValue) { return defaultValue; }\<close>
\<close>

fun or :: "'v Result \<Rightarrow> 'v \<Rightarrow> 'v" where
  "or (Success d) defaultValue = d"
| "or (Failure d) defaultValue = defaultValue"

text \<open>
  \<^verbatim>\<open>Success.isOk() { return true; }\<close>, \<^verbatim>\<open>Failure.isOk() { return false; }\<close>
\<close>

fun isOk :: "'v Result \<Rightarrow> bool" where
  "isOk (Success d) = True"
| "isOk (Failure d) = False"

text \<open>
  \<^verbatim>\<open>Success.isErr() { return false; }\<close>, \<^verbatim>\<open>Failure.isErr() { return true; }\<close>
\<close>

fun isErr :: "'v Result \<Rightarrow> bool" where
  "isErr (Success d) = False"
| "isErr (Failure d) = True"

subsection \<open>Construction and calls, with how they end\<close>

text \<open>
  The functions above give what a constructor, a factory or a method yields. The
  definitions of this subsection follow the same bodies statement by statement and
  keep how each one ends: \<^verbatim>\<open>return e\<close> is \<open>Returns\<close>, \<^verbatim>\<open>throw e\<close> is \<open>Throws\<close>.

  \<^verbatim>\<open>abstract class Base { constructor(protected data: S | E) {} }\<close>
  \<^verbatim>\<open>class Success extends Base { private readonly _tag = "Success";
      constructor(public data: S) { super(data); } }\<close>
  \<^verbatim>\<open>class Failure extends Base { private readonly _tag = "Failure";
      constructor(public data: E) { super(data); } }\<close>
  \<open>new\<close> runs the empty body of \<open>Base\<close>'s constructor, stores the constant \<open>_tag\<close> and
  stores the parameter property \<open>data\<close>; it ends with the new object.
\<close>

definition new_Success :: "'v \<Rightarrow> ('v, 'v Result) completion" where
  "new_Success d = Returns (Success d)"

definition new_Failure :: "'v \<Rightarrow> ('v, 'v Result) completion" where
  "new_Failure d = Returns (Failure d)"

text \<open>
  \<^verbatim>\<open>function Ok(data) { return new Success(data); }\<close> and
  \<^verbatim>\<open>function Err(error) { return new Failure(error); }\<close>: what the construction
  yields is returned; were the construction to throw, the call would throw the same.
\<close>

definition call_Ok :: "'v \<Rightarrow> ('v, 'v Result) completion" where
  "call_Ok d = (case new_Success d of Returns r \<Rightarrow> Returns r | Throws x \<Rightarrow> Throws x)"

definition call_Err :: "'v \<Rightarrow> ('v, 'v Result) completion" where
  "call_Err error = (case new_Failure error of Returns r \<Rightarrow> Returns r | Throws x \<Rightarrow> Throws x)"

text \<open>
  \<^verbatim>\<open>Success.isOk() { return true; }\<close>, \<^verbatim>\<open>Failure.isOk() { return false; }\<close>
\<close>

fun call_isOk :: "'v Result \<Rightarrow> ('v, bool) completion" where
  "call_isOk (Success d) = Returns True"
| "call_isOk (Failure d) = Returns False"

text \<open>
  \<^verbatim>\<open>Success.isErr() { return false; }\<close>, \<^verbatim>\<open>Failure.isErr() { return true; }\<close>
\<close>

fun call_isErr :: "'v Result \<Rightarrow> ('v, bool) completion" where
  "call_isErr (Success d) = Returns False"
| "call_isErr (Failure d) = Returns True"

text \<open>
  \<^verbatim>\<open>Success.or(defaultValue) { return this.data; }\<close> and
  \<^verbatim>\<open>Failure.or(defaultValue) { return defaultValue; }\<close>
\<close>

fun call_or :: "'v Result \<Rightarrow> 'v \<Rightarrow> ('v, 'v) completion" where
  "call_or (Success d) defaultValue = Returns d"
| "call_or (Failure d) defaultValue = Returns defaultValue"

subsection \<open>Mappers and throwMap\<close>

text \<open>
  The argument of \<open>throwMap\<close> is tested with \<^verbatim>\<open>typeof mapper === "function"\<close>.
  \<open>Callable f\<close> is a value for which the test holds, \<open>Fixed m\<close> one for which it does
  not (a string by the declared type). A callable is caller code: it receives the
  error payload, may read and change the caller's world \<open>'w\<close>, and either returns a
  value or throws one.
\<close>

datatype ('v, 'w) mapper =
    Fixed 'v
  | Callable "'v \<Rightarrow> 'w \<Rightarrow> ('v, 'v) completion \<times> 'w"

text \<open>
  The state a call runs in: the caller's world, and the log of mapper invocations
  (the argument of each, oldest first). The log is written by \<open>call_mapper\<close> only; a
  mapper cannot reach it.
\<close>

record ('v, 'w) runtime =
  world :: 'w
  invoked :: "'v list"

text \<open>The call \<^verbatim>\<open>mapper(this.data)\<close>: one invocation, logged.\<close>

definition call_mapper ::
  "('v \<Rightarrow> 'w \<Rightarrow> ('v, 'v) completion \<times> 'w) \<Rightarrow> 'v \<Rightarrow> ('v, 'w) runtime
     \<Rightarrow> ('v, 'v) completion \<times> ('v, 'w) runtime" where
  "call_mapper f arg s =
     (case f arg (world s) of
        (c, w') \<Rightarrow> (c, s\<lparr>world := w', invoked := invoked s @ [arg]\<rparr>))"

text \<open>
  \<^verbatim>\<open>Success.throwMap(mapper) { return this.data; }\<close>
  \<^verbatim>\<open>Failure.throwMap(mapper) {
      if (typeof mapper === "function") throw mapper(this.data);
      throw mapper; }\<close>
  In \<^verbatim>\<open>throw mapper(this.data)\<close> the call is evaluated first: when it returns \<open>v\<close>,
  \<open>v\<close> is thrown; when the call itself throws \<open>x\<close>, that \<open>x\<close> propagates.
\<close>

fun throwMap ::
  "'v Result \<Rightarrow> ('v, 'w) mapper \<Rightarrow> ('v, 'w) runtime
     \<Rightarrow> ('v, 'v) completion \<times> ('v, 'w) runtime" where
  "throwMap (Success d) mapper s = (Returns d, s)"
| "throwMap (Failure d) (Callable f) s =
     (case call_mapper f d s of
        (Returns v, s') \<Rightarrow> (Throws v, s')
      | (Throws x, s') \<Rightarrow> (Throws x, s'))"
| "throwMap (Failure d) (Fixed m) s = (Throws m, s)"

subsection \<open>What a caller can do with an instance\<close>

text \<open>
  The public members of both classes: the five methods and the property \<open>data\<close>. The
  property is declared \<^verbatim>\<open>public data\<close> with no \<^verbatim>\<open>readonly\<close>, so a caller can read it
  and assign to it; \<open>_tag\<close> is \<^verbatim>\<open>private readonly\<close> and no member of the public
  interface.

  A callable handed to \<open>throwMap\<close> is caller code too, and may hold the instance it is
  called for: \<^verbatim>\<open>r.throwMap(e => { r.data = 99; return e })\<close>. The world \<open>'w\<close> of a
  \<open>mapper\<close> does not contain the instance, so \<open>CallThrowMap m\<close> is a call whose mapper
  does not assign to the instance. \<open>CallThrowMapAssigning f g\<close> is the call with a
  callable that behaves as \<open>f\<close> and whose body also assigns \<open>g e w\<close> to \<open>r.data\<close>, for
  the argument \<open>e\<close> and the world \<open>w\<close> it is invoked with.
\<close>

datatype ('v, 'w) access =
    CallThrow
  | CallThrowMap "('v, 'w) mapper"
  | CallThrowMapAssigning "'v \<Rightarrow> 'w \<Rightarrow> ('v, 'v) completion \<times> 'w" "'v \<Rightarrow> 'w \<Rightarrow> 'v"
  | CallOr 'v
  | CallIsOk
  | CallIsErr
  | ReadData
  | WriteData 'v

text \<open>What an access evaluates to: a payload value or a boolean.\<close>

datatype 'v answer = Value 'v | Boolean bool

text \<open>The assignment \<^verbatim>\<open>r.data = v\<close>: the object stays of its class, the field changes.\<close>

fun set_data :: "'v \<Rightarrow> 'v Result \<Rightarrow> 'v Result" where
  "set_data v (Success d) = Success v"
| "set_data v (Failure d) = Failure v"

text \<open>
  One access of instance \<open>r\<close> in state \<open>s\<close>: how it ends, the instance afterwards and
  the state afterwards. No method body assigns to \<^verbatim>\<open>this\<close>, so a method hands the
  instance back as it was, unless the callable it invokes assigns to the instance: on
  a failure instance \<open>throwMap\<close> reads \<^verbatim>\<open>this.data\<close>, invokes the callable once, and
  the callable's assignment has taken place when the call ends; on a success
  instance the callable is not invoked and nothing is assigned. An assignment
  expression evaluates to the assigned value.
\<close>

fun perform ::
  "('v, 'w) access \<Rightarrow> 'v Result \<Rightarrow> ('v, 'w) runtime
     \<Rightarrow> ('v, 'v answer) completion \<times> 'v Result \<times> ('v, 'w) runtime" where
  "perform CallThrow r s = (map_completion id Value (throw r), r, s)"
| "perform (CallThrowMap m) r s =
     (case throwMap r m s of (c, s') \<Rightarrow> (map_completion id Value c, r, s'))"
| "perform (CallThrowMapAssigning f g) r s =
     (case throwMap r (Callable f) s of
        (c, s') \<Rightarrow>
          (map_completion id Value c,
           (if isErr r then set_data (g (data r) (world s)) r else r),
           s'))"
| "perform (CallOr d) r s = (map_completion id Value (call_or r d), r, s)"
| "perform CallIsOk r s = (map_completion id Boolean (call_isOk r), r, s)"
| "perform CallIsErr r s = (map_completion id Boolean (call_isErr r), r, s)"
| "perform ReadData r s = (Returns (Value (data r)), r, s)"
| "perform (WriteData v) r s = (Returns (Value v), set_data v r, s)"

text \<open>
  A caller's sequence of accesses. A caller may catch what an access throws and go
  on, so the sequence continues whatever the completion.
\<close>

fun run ::
  "('v, 'w) access list \<Rightarrow> 'v Result \<Rightarrow> ('v, 'w) runtime
     \<Rightarrow> 'v Result \<times> ('v, 'w) runtime" where
  "run [] r s = (r, s)"
| "run (a # as) r s = (case perform a r s of (c, r', s') \<Rightarrow> run as r' s')"

text \<open>The completions of \<open>n\<close> successive accesses \<open>a\<close> of the same instance.\<close>

fun repeated ::
  "nat \<Rightarrow> ('v, 'w) access \<Rightarrow> 'v Result \<Rightarrow> ('v, 'w) runtime
     \<Rightarrow> ('v, 'v answer) completion list" where
  "repeated 0 a r s = []"
| "repeated (Suc n) a r s =
     (case perform a r s of (c, r', s') \<Rightarrow> c # repeated n a r' s')"

text \<open>
  The accesses in which caller code assigns to \<open>data\<close>: the assignment itself, and a
  \<open>throwMap\<close> call whose callable assigns.
\<close>

fun is_write :: "('v, 'w) access \<Rightarrow> bool" where
  "is_write (WriteData v) = True"
| "is_write (CallThrowMapAssigning f g) = True"
| "is_write a = False"

text \<open>
  A pure mapper: a fixed value, or a callable that leaves the world as it found it
  and whose completion does not depend on the world.
\<close>

fun pure_mapper :: "('v, 'w) mapper \<Rightarrow> bool" where
  "pure_mapper (Fixed m) = True"
| "pure_mapper (Callable f) =
     (\<forall>e w w'. snd (f e w) = w \<and> fst (f e w') = fst (f e w))"

text \<open>
  The method calls of the interface, \<open>throwMap\<close> with a pure mapper. A callable that
  assigns to the instance has a side effect, so it is not pure.
\<close>

fun pure_call :: "('v, 'w) access \<Rightarrow> bool" where
  "pure_call CallThrow = True"
| "pure_call (CallThrowMap m) = pure_mapper m"
| "pure_call (CallThrowMapAssigning f g) = False"
| "pure_call (CallOr d) = True"
| "pure_call CallIsOk = True"
| "pure_call CallIsErr = True"
| "pure_call ReadData = False"
| "pure_call (WriteData v) = False"

section \<open>The end-to-end example: sum\<close>

text \<open>
  The arguments of \<open>sum\<close> are of type \<open>any\<close>: every kind of run-time value, told
  apart by \<^verbatim>\<open>typeof\<close>. The type \<open>'n\<close> is the host's Number type (the IEEE-754
  doubles, with \<open>NaN\<close> and the infinities), left open; objects, functions and symbols
  are references.
\<close>

datatype 'n jsval =
    JUndefined
  | JNull
  | JBoolean bool
  | JNumber 'n
  | JString string
  | JBigInt int
  | JSymbol nat
  | JObject nat
  | JFunction nat

fun typeof :: "'n jsval \<Rightarrow> string" where
  "typeof JUndefined = ''undefined''"
| "typeof JNull = ''object''"
| "typeof (JBoolean b) = ''boolean''"
| "typeof (JNumber n) = ''number''"
| "typeof (JString s) = ''string''"
| "typeof (JBigInt i) = ''bigint''"
| "typeof (JSymbol k) = ''symbol''"
| "typeof (JObject k) = ''object''"
| "typeof (JFunction k) = ''function''"

text \<open>
  The operator \<^verbatim>\<open>+\<close> of the host. On two Numbers it is the host's addition of
  doubles, the parameter \<open>add\<close>, and it does not throw. On every other pair of
  operands (string concatenation, conversion of objects by their own methods, the
  \<open>TypeError\<close> of a BigInt or Symbol operand) it is the parameter \<open>other\<close>, which
  may throw.
\<close>

definition js_plus ::
  "('n \<Rightarrow> 'n \<Rightarrow> 'n) \<Rightarrow> ('n jsval \<Rightarrow> 'n jsval \<Rightarrow> ('n jsval, 'n jsval) completion)
     \<Rightarrow> 'n jsval \<Rightarrow> 'n jsval \<Rightarrow> ('n jsval, 'n jsval) completion" where
  "js_plus add other a b =
     (case a of
        JNumber x \<Rightarrow> (case b of JNumber y \<Rightarrow> Returns (JNumber (add x y)) | _ \<Rightarrow> other a b)
      | _ \<Rightarrow> other a b)"

text \<open>
  The function \<open>sum\<close> as the test file defines it (the README has the same text):
  \<^verbatim>\<open>
  function sum(a: any, b: any): Result<number, string> {
      if (typeof a !== "number" || typeof b !== "number")
          return Err("Both arguments are not numbers");
      return Ok(a + b);
  }\<close>
  The doc comments of src/index.ts quote the function with \<^verbatim>\<open>&&\<close> in the guard; that
  text is documentation inside a comment, and index.ts defines no \<open>sum\<close>.
\<close>

definition sum_test ::
  "('n \<Rightarrow> 'n \<Rightarrow> 'n) \<Rightarrow> ('n jsval \<Rightarrow> 'n jsval \<Rightarrow> ('n jsval, 'n jsval) completion)
     \<Rightarrow> 'n jsval \<Rightarrow> 'n jsval \<Rightarrow> ('n jsval, 'n jsval Result) completion" where
  "sum_test add other a b =
     (if typeof a \<noteq> ''number'' \<or> typeof b \<noteq> ''number''
      then Returns (Err (JString ''Both arguments are not numbers''))
      else (case js_plus add other a b of
              Returns v \<Rightarrow> Returns (Ok v)
            | Throws x \<Rightarrow> Throws x))"

section \<open>Properties of the container\<close>

subsection \<open>Discriminators and extraction\<close>

text \<open>
  C1. Exactly one of \<open>isOk()\<close> and \<open>isErr()\<close> is true on every instance, never both
  and never neither; an instance made by \<open>Ok\<close> answers \<open>isOk()\<close> with true, one made
  by \<open>Err\<close> answers \<open>isErr()\<close> with true.
\<close>

theorem isOk_isErr_exhaustive:
  "isOk r \<noteq> isErr r
   \<and> isOk (Ok x) \<and> \<not> isErr (Ok x)
   \<and> isErr (Err e) \<and> \<not> isOk (Err e)"
  by (cases r) (simp_all add: Ok_def Err_def)

text \<open>
  C2. \<open>Ok(x).throw()\<close> returns \<open>x\<close>; \<open>Err(e).throw()\<close> throws, and the thrown value is
  \<open>e\<close> itself, with nothing wrapped around it.
\<close>

theorem throw_passthrough:
  "throw (Ok x) = Returns x \<and> throw (Err e) = Throws e"
  by (simp add: Ok_def Err_def)

text \<open>
  C3. On a failure instance, \<open>throwMap\<close> with a callable \<open>f\<close> that returns \<open>v\<close> for
  the error payload throws exactly \<open>v\<close>; \<open>f\<close> is invoked once, with the payload (the
  invocation log grows by that one entry) and the world is as \<open>f\<close> left it. With a
  non-callable \<open>m\<close> it throws \<open>m\<close> unchanged and invokes nothing: the state is
  untouched.
\<close>

theorem throwMap_failure:
  "(f e (world s) = (Returns v, w') \<longrightarrow>
      throwMap (Err e) (Callable f) s
        = (Throws v, s\<lparr>world := w', invoked := invoked s @ [e]\<rparr>))
   \<and> throwMap (Err e) (Fixed m) s = (Throws m, s)"
  by (simp add: Err_def call_mapper_def)

text \<open>
  The mapped throw of the documentation, with a mapper that also counts its calls in
  the world.
\<close>

theorem throwMap_failure_witness:
  "(\<lambda>e w. (Returns (''wrapped: '' @ e), Suc w)) ''bad input''
        (world \<lparr>world = 0::nat, invoked = []\<rparr>)
      = (Returns ''wrapped: bad input'', 1)
   \<and> throwMap (Err ''bad input'') (Callable (\<lambda>e w. (Returns (''wrapped: '' @ e), Suc w)))
        \<lparr>world = 0::nat, invoked = []\<rparr>
      = (Throws ''wrapped: bad input'', \<lparr>world = 1, invoked = [''bad input'']\<rparr>)
   \<and> throwMap (Err ''bad input'') (Fixed ''fixed message'') \<lparr>world = 0::nat, invoked = []\<rparr>
      = (Throws ''fixed message'', \<lparr>world = 0, invoked = []\<rparr>)"
  using throwMap_failure [of "\<lambda>e w. (Returns (''wrapped: '' @ e), Suc w)" "''bad input''"
      "\<lparr>world = 0::nat, invoked = []\<rparr>" "''wrapped: bad input''" 1 "''fixed message''"]
  by simp

text \<open>
  When the callable itself throws, \<^verbatim>\<open>throw mapper(this.data)\<close> never gets a value to
  throw: what the callable threw propagates, after the same single invocation.
\<close>

lemma throwMap_failure_mapper_throws:
  "f e (world s) = (Throws x, w') \<Longrightarrow>
     throwMap (Err e) (Callable f) s
       = (Throws x, s\<lparr>world := w', invoked := invoked s @ [e]\<rparr>)"
  by (simp add: Err_def call_mapper_def)

text \<open>
  C4. \<open>Ok(x).or(d)\<close> is \<open>x\<close> whatever the default; \<open>Err(e).or(d)\<close> is \<open>d\<close>.
\<close>

theorem or_identity:
  "or (Ok x) d = x \<and> or (Err e) d = d"
  by (simp add: Ok_def Err_def)

text \<open>
  C5. On a success instance \<open>throwMap\<close> returns the payload for every mapper, callable
  or not, and leaves the whole state as it was: the world is unchanged and the
  invocation log has no new entry.
\<close>

theorem throwMap_success_no_invocation:
  "throwMap (Ok x) mapper s = (Returns x, s)"
  by (simp add: Ok_def)

subsection \<open>Where a raise can come from\<close>

lemma throwMap_raises: "raises (fst (throwMap r m s)) = isErr r"
  by (cases r; cases m) (auto simp: call_mapper_def split: prod.splits completion.splits)

lemma raises_map_completion: "raises (map_completion f g c) = raises c"
  by (cases c) simp_all

lemma call_isOk_returns: "call_isOk r = Returns (isOk r)"
  by (cases r) simp_all

lemma call_isErr_returns: "call_isErr r = Returns (isErr r)"
  by (cases r) simp_all

lemma call_or_returns: "call_or r d = Returns (or r d)"
  by (cases r) simp_all

lemma perform_raises:
  "raises (fst (perform a r s))
     = ((a = CallThrow \<or> (\<exists>m. a = CallThrowMap m) \<or> (\<exists>f g. a = CallThrowMapAssigning f g))
        \<and> isErr r)"
proof (cases a)
  case CallThrow
  then show ?thesis by (cases r) simp_all
next
  case (CallThrowMap m)
  then show ?thesis using throwMap_raises [of r m s]
    by (auto simp: raises_map_completion split: prod.splits)
next
  case (CallThrowMapAssigning f g)
  then show ?thesis using throwMap_raises [of r "Callable f" s]
    by (auto simp: raises_map_completion split: prod.splits)
next
  case (CallOr d)
  then show ?thesis by (simp add: call_or_returns)
next
  case CallIsOk
  then show ?thesis by (simp add: call_isOk_returns)
next
  case CallIsErr
  then show ?thesis by (simp add: call_isErr_returns)
qed simp_all

text \<open>
  C6. Construction by \<open>Ok\<close> and by \<open>Err\<close> never raises: the call returns, and what it
  returns is the instance. \<open>isOk()\<close>, \<open>isErr()\<close> and \<open>or(d)\<close> never raise, on either
  variant and for every payload and default: each call returns its answer. An access
  raises exactly when it is \<open>throw()\<close> or \<open>throwMap\<close> (whatever the mapper) on a
  failure instance.
\<close>

theorem raise_only_by_throw_on_failure:
  "call_Ok x = Returns (Ok x) \<and> \<not> raises (call_Ok x)
   \<and> call_Err e = Returns (Err e) \<and> \<not> raises (call_Err e)
   \<and> call_isOk r = Returns (isOk r) \<and> \<not> raises (call_isOk r)
   \<and> call_isErr r = Returns (isErr r) \<and> \<not> raises (call_isErr r)
   \<and> call_or r d = Returns (or r d) \<and> \<not> raises (call_or r d)
   \<and> \<not> raises (fst (perform CallIsOk r s))
   \<and> \<not> raises (fst (perform CallIsErr r s))
   \<and> \<not> raises (fst (perform (CallOr d) r s))
   \<and> raises (throw r) = isErr r
   \<and> raises (fst (throwMap r m s)) = isErr r
   \<and> (raises (fst (perform a r s))
        = ((a = CallThrow \<or> (\<exists>m. a = CallThrowMap m)
              \<or> (\<exists>f g. a = CallThrowMapAssigning f g))
           \<and> isErr r))"
proof -
  have construction:
    "call_Ok x = Returns (Ok x) \<and> \<not> raises (call_Ok x)
     \<and> call_Err e = Returns (Err e) \<and> \<not> raises (call_Err e)"
    by (simp add: call_Ok_def call_Err_def new_Success_def new_Failure_def Ok_def Err_def)
  have queries:
    "call_isOk r = Returns (isOk r) \<and> \<not> raises (call_isOk r)
     \<and> call_isErr r = Returns (isErr r) \<and> \<not> raises (call_isErr r)
     \<and> call_or r d = Returns (or r d) \<and> \<not> raises (call_or r d)"
    by (simp add: call_isOk_returns call_isErr_returns call_or_returns)
  have accesses:
    "\<not> raises (fst (perform CallIsOk r s))
     \<and> \<not> raises (fst (perform CallIsErr r s))
     \<and> \<not> raises (fst (perform (CallOr d) r s))"
    by (simp add: raises_map_completion call_isOk_returns call_isErr_returns call_or_returns)
  have thrown: "raises (throw r) = isErr r"
    by (cases r) simp_all
  show ?thesis
    using construction queries accesses thrown throwMap_raises [of r m s]
      perform_raises [of a r s]
    by simp
qed

subsection \<open>What an access does to the instance\<close>

lemma perform_tag: "tag (fst (snd (perform a r s))) = tag r"
  by (cases a; cases r) (simp_all split: prod.splits)

lemma perform_method_instance: "\<not> is_write a \<Longrightarrow> fst (snd (perform a r s)) = r"
  by (cases a) (simp_all split: prod.splits)

lemma run_tag: "tag (fst (run as r s)) = tag r"
proof (induction as arbitrary: r s)
  case Nil
  show ?case by simp
next
  case (Cons a as)
  obtain c r' s' where p: "perform a r s = (c, r', s')"
    by (cases "perform a r s") auto
  have "tag r' = tag r" using perform_tag [of a r s] p by simp
  then show ?case using Cons.IH [of r' s'] p by simp
qed

lemma run_methods_instance:
  "\<forall>a \<in> set as. \<not> is_write a \<Longrightarrow> fst (run as r s) = r"
proof (induction as arbitrary: s)
  case Nil
  show ?case by simp
next
  case (Cons a as)
  obtain c r' s' where p: "perform a r s = (c, r', s')"
    by (cases "perform a r s") auto
  have "r' = r" using perform_method_instance [of a r s] Cons.prems p by simp
  then show ?case using Cons.IH [of s'] Cons.prems p by simp
qed

lemma tag_isOk: "isOk r = (tag r = ''Success'')"
  by (cases r) simp_all

lemma tag_isErr: "isErr r = (tag r = ''Failure'')"
  by (cases r) simp_all

text \<open>
  C7, as the claim states it, fails: \<open>data\<close> is a public property without
  \<^verbatim>\<open>readonly\<close>, so the assignment \<^verbatim>\<open>r.data = 2\<close> on \<open>Ok(1)\<close> replaces the held payload.
\<close>

theorem payload_replaced_counterexample:
  "data (fst (run [WriteData (2::nat)] (Ok 1) \<lparr>world = (), invoked = []\<rparr>)) = 2
   \<and> data (fst (run [WriteData (2::nat)] (Ok 1) \<lparr>world = (), invoked = []\<rparr>))
       \<noteq> data (Ok (1::nat))"
  by (simp add: Ok_def)

text \<open>
  The same through a method: a callable handed to \<open>throwMap\<close> that assigns to the
  instance it is called for. \<^verbatim>\<open>r.throwMap(e => { r.data = 99; return e })\<close> on
  \<open>r = Err(7)\<close> throws 7 and leaves 99 in \<open>r.data\<close>.
\<close>

lemma payload_replaced_inside_mapper:
  "perform (CallThrowMapAssigning (\<lambda>e w. (Returns e, w)) (\<lambda>e w. 99)) (Err (7::nat))
       \<lparr>world = (), invoked = []\<rparr>
     = (Throws 7, Err 99, \<lparr>world = (), invoked = [7]\<rparr>)"
  by (simp add: Err_def call_mapper_def)

text \<open>
  C7, amended. Through any sequence of accesses of the public interface (the five
  methods with any mapper, reading \<open>data\<close>, assigning to \<open>data\<close>) an instance stays of
  its variant: \<open>isOk()\<close>, \<open>isErr()\<close> and \<open>_tag\<close> answer as at construction. The payload
  is replaced by caller code only: a sequence in which the caller assigns to \<open>data\<close>
  neither directly nor inside a callable handed to \<open>throwMap\<close> leaves the instance
  as it was.
\<close>

theorem variant_permanent:
  "isOk (fst (run as r s)) = isOk r
   \<and> isErr (fst (run as r s)) = isErr r
   \<and> tag (fst (run as r s)) = tag r
   \<and> ((\<forall>a \<in> set as. \<not> is_write a) \<longrightarrow> fst (run as r s) = r)"
  using run_tag [of as r s] run_methods_instance [of as r s]
  by (simp add: tag_isOk tag_isErr)

theorem variant_permanent_witness:
  "\<not> is_write (CallIsOk :: (nat, unit) access) \<and> \<not> is_write (CallThrow :: (nat, unit) access)
   \<and> \<not> is_write (CallOr 0 :: (nat, unit) access) \<and> \<not> is_write (ReadData :: (nat, unit) access)
   \<and> fst (run [CallIsOk, CallThrow, CallOr 0, ReadData] (Err (7::nat))
        \<lparr>world = (), invoked = []\<rparr>) = Err 7
   \<and> isErr (fst (run [WriteData 3, CallThrow] (Err (7::nat)) \<lparr>world = (), invoked = []\<rparr>))
   \<and> isErr (fst (run [CallThrowMapAssigning (\<lambda>e w. (Returns e, w)) (\<lambda>e w. 99)] (Err (7::nat))
        \<lparr>world = (), invoked = []\<rparr>))"
  using variant_permanent [of "[CallIsOk, CallThrow, CallOr (0::nat), ReadData]" "Err 7"
      "\<lparr>world = (), invoked = []\<rparr>"]
    variant_permanent [of "[WriteData 3, CallThrow]" "Err (7::nat)"
      "\<lparr>world = (), invoked = []\<rparr>"]
    variant_permanent [of "[CallThrowMapAssigning (\<lambda>e w. (Returns e, w)) (\<lambda>e w. 99)]"
      "Err (7::nat)" "\<lparr>world = (), invoked = []\<rparr>"]
  by (simp add: Err_def)

subsection \<open>The end-to-end example\<close>

lemma typeof_number: "(typeof a = ''number'') = (\<exists>x. a = JNumber x)"
  by (cases a) simp_all

text \<open>
  C8. \<open>sum\<close> returns \<open>Ok(a + b)\<close> when both arguments are numbers, \<open>a + b\<close> being the
  host's sum of the two, and returns \<open>Err("Both arguments are not numbers")\<close>
  whenever not both are numbers; it never throws. In particular \<open>sum(1, 2)\<close> is
  \<open>Ok(3)\<close> (for the numbers \<open>one\<close>, \<open>two\<close>, \<open>three\<close> of a host in which one plus two
  is three) and \<open>sum("a", 2)\<close> is \<open>Err("Both arguments are not numbers")\<close>.
\<close>

theorem sum_test_meets_documentation:
  "sum_test add other (JNumber x) (JNumber y) = Returns (Ok (JNumber (add x y)))
   \<and> (\<not> (\<exists>x y. a = JNumber x \<and> b = JNumber y) \<longrightarrow>
        sum_test add other a b = Returns (Err (JString ''Both arguments are not numbers'')))
   \<and> (add one two = three \<longrightarrow>
        sum_test add other (JNumber one) (JNumber two) = Returns (Ok (JNumber three)))
   \<and> sum_test add other (JString ''a'') (JNumber two)
        = Returns (Err (JString ''Both arguments are not numbers''))"
proof -
  have numbers:
    "\<And>x y. sum_test add other (JNumber x) (JNumber y) = Returns (Ok (JNumber (add x y)))"
    by (simp add: sum_test_def js_plus_def)
  have otherwise:
    "sum_test add other a b = Returns (Err (JString ''Both arguments are not numbers''))"
    if "\<not> (\<exists>x y. a = JNumber x \<and> b = JNumber y)"
  proof -
    from that have "typeof a \<noteq> ''number'' \<or> typeof b \<noteq> ''number''"
      unfolding typeof_number by blast
    then show ?thesis unfolding sum_test_def by (rule if_P)
  qed
  have string_number:
    "sum_test add other (JString ''a'') (JNumber two)
       = Returns (Err (JString ''Both arguments are not numbers''))"
    by (simp add: sum_test_def)
  show ?thesis using numbers otherwise string_number by simp
qed

text \<open>
  The rows of the test table, with integers standing for the numbers of the table and
  a host operator that concatenates or throws outside the numbers.
\<close>

theorem sum_test_meets_documentation_witness:
  "\<not> (\<exists>x y. JNumber (1::int) = JNumber x \<and> JString ''b'' = JNumber y)
   \<and> (1::int) + 2 = 3
   \<and> sum_test (+) (\<lambda>a b. Throws (JString ''TypeError'')) (JNumber (1::int)) (JNumber 2)
       = Returns (Ok (JNumber 3))
   \<and> sum_test (+) (\<lambda>a b. Throws (JString ''TypeError'')) (JNumber (3::int)) (JNumber 4)
       = Returns (Ok (JNumber 7))
   \<and> sum_test (+) (\<lambda>a b. Throws (JString ''TypeError'')) (JNumber (1::int)) (JString ''b'')
       = Returns (Err (JString ''Both arguments are not numbers''))
   \<and> sum_test (+) (\<lambda>a b. Throws (JString ''TypeError'')) (JString ''a'') (JNumber (2::int))
       = Returns (Err (JString ''Both arguments are not numbers''))"
  using sum_test_meets_documentation [of "(+)" "\<lambda>a b. Throws (JString ''TypeError'')"
      "3::int" 4 "JNumber 1" "JString ''b''" 1 2 3]
  by simp

subsection \<open>The payload field and repeated calls\<close>

text \<open>
  C9. The payload is the public field \<open>data\<close> of both variants: \<open>Ok(x).data\<close> is \<open>x\<close>,
  \<open>Err(e).data\<close> is \<open>e\<close>, and reading it calls no method.
\<close>

theorem data_exposed:
  "data (Ok x) = x \<and> data (Err e) = e
   \<and> perform ReadData (Ok x) s = (Returns (Value x), Ok x, s)
   \<and> perform ReadData (Err e) s = (Returns (Value e), Err e, s)"
  by (simp add: Ok_def Err_def)

lemma pure_call_completion:
  "pure_call a \<Longrightarrow> fst (perform a r s') = fst (perform a r s)"
proof (cases a)
  case (CallThrowMap m)
  assume "pure_call a"
  then have pm: "pure_mapper m" using CallThrowMap by simp
  show ?thesis
  proof (cases r)
    case (Success d)
    then show ?thesis using CallThrowMap by simp
  next
    case (Failure d)
    show ?thesis
    proof (cases m)
      case (Fixed v)
      then show ?thesis using CallThrowMap Failure by simp
    next
      case (Callable f)
      then have "fst (f d (world s')) = fst (f d (world s))" using pm by simp
      then show ?thesis using CallThrowMap Failure Callable
        by (auto simp add: call_mapper_def split: prod.splits completion.splits)
    qed
  qed
qed simp_all

lemma pure_call_world:
  "pure_call a \<Longrightarrow> world (snd (snd (perform a r s))) = world s"
proof (cases a)
  case (CallThrowMap m)
  assume "pure_call a"
  then have pm: "pure_mapper m" using CallThrowMap by simp
  show ?thesis
  proof (cases r)
    case (Success d)
    then show ?thesis using CallThrowMap by simp
  next
    case (Failure d)
    show ?thesis
    proof (cases m)
      case (Fixed v)
      then show ?thesis using CallThrowMap Failure by simp
    next
      case (Callable f)
      then have "snd (f d (world s)) = world s" using pm by simp
      then show ?thesis using CallThrowMap Failure Callable
        by (auto simp add: call_mapper_def split: prod.splits completion.splits)
    qed
  qed
qed simp_all

lemma pure_call_not_write: "pure_call a \<Longrightarrow> \<not> is_write a"
  by (cases a) simp_all

lemma repeated_pure:
  "pure_call a \<Longrightarrow> repeated n a r s = replicate n (fst (perform a r s))"
proof (induction n arbitrary: s)
  case 0
  show ?case by simp
next
  case (Suc n)
  obtain c r' s' where p: "perform a r s = (c, r', s')"
    by (cases "perform a r s") auto
  have r': "r' = r"
    using perform_method_instance [of a r s] pure_call_not_write [OF Suc.prems] p by simp
  have "fst (perform a r s') = c"
    using pure_call_completion [OF Suc.prems, of r s' s] p by simp
  then show ?case using Suc.IH [OF Suc.prems, of s'] p r' by simp
qed

lemma run_pure_world:
  "pure_call a \<Longrightarrow> world (snd (run (replicate n a) r s)) = world s"
proof (induction n arbitrary: r s)
  case 0
  show ?case by simp
next
  case (Suc n)
  obtain c r' s' where p: "perform a r s = (c, r', s')"
    by (cases "perform a r s") auto
  have "world s' = world s" using pure_call_world [OF Suc.prems, of r s] p by simp
  then show ?case using Suc.IH [OF Suc.prems, of r' s'] p by simp
qed

text \<open>
  C10. For \<open>isOk()\<close>, \<open>isErr()\<close>, \<open>or(d)\<close>, \<open>throw()\<close> and \<open>throwMap(m)\<close> with a pure mapper
  \<open>m\<close>: \<open>n\<close> successive calls on the same instance all end the way the first one
  does (the same returned value or the same thrown value), the completion is the
  same from every state, and the calls leave the instance and the caller's world as
  they were.
\<close>

theorem calls_deterministic:
  "pure_call a \<Longrightarrow>
     repeated n a r s = replicate n (fst (perform a r s))
     \<and> fst (perform a r s') = fst (perform a r s)
     \<and> fst (run (replicate n a) r s) = r
     \<and> world (snd (run (replicate n a) r s)) = world s"
  using repeated_pure [of a n r s] pure_call_completion [of a r s' s]
    run_methods_instance [of "replicate n a" r s] pure_call_not_write [of a]
    run_pure_world [of a n r s]
  by simp

theorem calls_deterministic_witness:
  "pure_call (CallThrowMap (Callable (\<lambda>e (w::nat). (Returns (Suc e), w))))
   \<and> repeated 3 (CallThrowMap (Callable (\<lambda>e (w::nat). (Returns (Suc e), w)))) (Err 5)
        \<lparr>world = 0, invoked = []\<rparr>
       = [Throws 6, Throws 6, Throws 6]"
  using calls_deterministic [of "CallThrowMap (Callable (\<lambda>e (w::nat). (Returns (Suc e), w)))"
      3 "Err 5" "\<lparr>world = 0, invoked = []\<rparr>" "\<lparr>world = 0, invoked = []\<rparr>"]
  by (simp add: Err_def call_mapper_def numeral_3_eq_3)

end
